theory Spec2Isabelle
  imports Main "HOL-Library.Word" "HOL-Library.Sublist"
begin

section \<open>The AuditTrail contract\<close>

text \<open>
  The ledger program is the Solidity contract \<^verbatim>\<open>AuditTrail\<close>. An \<^verbatim>\<open>address\<close> is a
  160-bit word and a \<^verbatim>\<open>uint256\<close> a 256-bit word. A Solidity \<^verbatim>\<open>mapping\<close> is total: a key
  that was never written reads as the zero value of the value type, so both mappings are
  total functions. Events are kept in the order of emission.
\<close>

type_synonym address = "160 word"
type_synonym uint256 = "256 word"

record DocumentLog =
  fileHash :: string
  log_user :: address
  log_timestamp :: uint256

record AccessLog =
  accessor :: address
  access_timestamp :: uint256

datatype event =
  DocumentCreated string address uint256
| DocumentAccessed string address uint256

record AuditTrail =
  owner :: address
  documentRecords :: "string \<Rightarrow> DocumentLog"
  accessHistory :: "string \<Rightarrow> AccessLog list"
  events :: "event list"

text \<open>The reasons a call reverts: the messages of the three \<^verbatim>\<open>require\<close> statements.\<close>

datatype revert =
  CallerIsNotTheOwner
| DocumentHashAlreadyExists
| DocumentDoesNotExist

definition zeroDocumentLog :: DocumentLog where
  "zeroDocumentLog = \<lparr>fileHash = [], log_user = 0, log_timestamp = 0\<rparr>"

text \<open>The constructor: the deploying account becomes the owner, the storage is zero.\<close>

definition constructor :: "address \<Rightarrow> AuditTrail" where
  "constructor msg_sender =
     \<lparr>owner = msg_sender,
      documentRecords = (\<lambda>_. zeroDocumentLog),
      accessHistory = (\<lambda>_. []),
      events = []\<rparr>"

text \<open>
  Each external function takes \<^verbatim>\<open>msg.sender\<close> and \<^verbatim>\<open>block.timestamp\<close> first. The modifier
  \<^verbatim>\<open>onlyOwner\<close> runs before the body. A revert returns the reason and no state.
\<close>

definition logNewDocument ::
  "address \<Rightarrow> uint256 \<Rightarrow> string \<Rightarrow> address \<Rightarrow> AuditTrail \<Rightarrow> revert + AuditTrail" where
  "logNewDocument msg_sender block_timestamp fh usr c =
     (if msg_sender \<noteq> owner c then Inl CallerIsNotTheOwner
      else if log_timestamp (documentRecords c fh) \<noteq> 0 then Inl DocumentHashAlreadyExists
      else Inr (c\<lparr>documentRecords := (documentRecords c)
                     (fh := \<lparr>fileHash = fh, log_user = usr, log_timestamp = block_timestamp\<rparr>),
                   events := events c @ [DocumentCreated fh usr block_timestamp]\<rparr>))"

definition logAccess ::
  "address \<Rightarrow> uint256 \<Rightarrow> string \<Rightarrow> address \<Rightarrow> AuditTrail \<Rightarrow> revert + AuditTrail" where
  "logAccess msg_sender block_timestamp fh acc c =
     (if msg_sender \<noteq> owner c then Inl CallerIsNotTheOwner
      else if log_timestamp (documentRecords c fh) = 0 then Inl DocumentDoesNotExist
      else Inr (c\<lparr>accessHistory := (accessHistory c)
                     (fh := accessHistory c fh
                            @ [\<lparr>accessor = acc, access_timestamp = block_timestamp\<rparr>]),
                   events := events c @ [DocumentAccessed fh acc block_timestamp]\<rparr>))"

definition getDocumentRecord :: "string \<Rightarrow> AuditTrail \<Rightarrow> DocumentLog" where
  "getDocumentRecord fh c = documentRecords c fh"

definition getAccessHistory :: "string \<Rightarrow> AuditTrail \<Rightarrow> AccessLog list" where
  "getAccessHistory fh c = accessHistory c fh"

subsection \<open>Transactions\<close>

text \<open>
  A transaction is a call of one of the two state-changing functions by some account in
  some block. A reverted transaction leaves the contract's storage as it was.
\<close>

datatype contract_call =
  LogNewDocument string address
| LogAccess string address

record transaction =
  tx_sender :: address
  tx_block_timestamp :: uint256
  tx_call :: contract_call

fun execute :: "transaction \<Rightarrow> AuditTrail \<Rightarrow> revert + AuditTrail" where
  "execute t c =
     (case tx_call t of
        LogNewDocument fh usr \<Rightarrow> logNewDocument (tx_sender t) (tx_block_timestamp t) fh usr c
      | LogAccess fh acc \<Rightarrow> logAccess (tx_sender t) (tx_block_timestamp t) fh acc c)"

definition apply_tx :: "transaction \<Rightarrow> AuditTrail \<Rightarrow> AuditTrail" where
  "apply_tx t c = (case execute t c of Inl _ \<Rightarrow> c | Inr c' \<Rightarrow> c')"

fun apply_txs :: "transaction list \<Rightarrow> AuditTrail \<Rightarrow> AuditTrail" where
  "apply_txs [] c = c"
| "apply_txs (t # ts) c = apply_txs ts (apply_tx t c)"

text \<open>
  The access records that a sequence of transactions appends for one hash: one for each
  \<^verbatim>\<open>logAccess\<close> transaction for that hash that does not revert, in the order of the calls.
\<close>

fun accesses_logged :: "string \<Rightarrow> transaction list \<Rightarrow> AuditTrail \<Rightarrow> AccessLog list" where
  "accesses_logged fh [] c = []"
| "accesses_logged fh (t # ts) c =
     (case (tx_call t, execute t c) of
        (LogAccess fh' acc, Inr _) \<Rightarrow>
          (if fh' = fh
           then [\<lparr>accessor = acc, access_timestamp = tx_block_timestamp t\<rparr>] else [])
      | _ \<Rightarrow> [])
     @ accesses_logged fh ts (apply_tx t c)"

text \<open>The number of \<^verbatim>\<open>logAccess\<close> transactions for one hash that do not revert.\<close>

fun successful_accesses :: "string \<Rightarrow> transaction list \<Rightarrow> AuditTrail \<Rightarrow> nat" where
  "successful_accesses fh [] c = 0"
| "successful_accesses fh (t # ts) c =
     (case (tx_call t, execute t c) of
        (LogAccess fh' acc, Inr _) \<Rightarrow> (if fh' = fh then 1 else 0)
      | _ \<Rightarrow> 0)
     + successful_accesses fh ts (apply_tx t c)"

section \<open>The blockchain service\<close>

text \<open>
  \<^verbatim>\<open>blockchainService.js\<close> talks to the contract through a JSON-RPC provider with the
  wallet of the contract owner's private key. What the outside world contributes to one
  request is collected in a record: the wallet's address, whether a submitted transaction
  gets through and is mined (\<^verbatim>\<open>await contract.f(...)\<close> and \<^verbatim>\<open>await tx.wait()\<close> both
  resolve, unless the contract itself reverts), whether a read-only call is answered, the
  hash of the transaction and the timestamp of the block that mines it.
\<close>

record rpc =
  wallet_address :: address
  tx_mined :: bool
  call_answered :: bool
  tx_hash :: string
  mined_at :: uint256

text \<open>
  The errors the backend throws. \<^verbatim>\<open>asyncHandler\<close> hands them to the error middleware;
  the status is the one the handler set with \<^verbatim>\<open>res.status\<close> before throwing, if any.
  \<^verbatim>\<open>detectPii\<close> words its 404 without the final period that \<^verbatim>\<open>saveAndLogDocument\<close>
  writes. The last three come from libraries, a rejected request to the detection
  service, a document that fails the schema's validation and a duplicate \<^verbatim>\<open>_id\<close>, with
  messages of the libraries' own.
\<close>

datatype error =
  PleaseSelectAFile
| DocumentNotFound
| DocumentNotFoundPlain
| DocumentAlreadySaved
| DocumentNotFoundOrNotSaved
| DocumentNotFoundOrNotAuthorized
| BlockchainTransactionFailed
| DetectionServiceFailed
| ValidationError
| DuplicateKey

fun error_status :: "error \<Rightarrow> nat option" where
  "error_status PleaseSelectAFile = Some 400"
| "error_status DocumentNotFound = Some 404"
| "error_status DocumentNotFoundPlain = Some 404"
| "error_status DocumentAlreadySaved = Some 400"
| "error_status DocumentNotFoundOrNotSaved = Some 400"
| "error_status DocumentNotFoundOrNotAuthorized = Some 404"
| "error_status BlockchainTransactionFailed = None"
| "error_status DetectionServiceFailed = None"
| "error_status ValidationError = None"
| "error_status DuplicateKey = None"

fun error_message :: "error \<Rightarrow> string option" where
  "error_message PleaseSelectAFile = Some ''Please select a file''"
| "error_message DocumentNotFound = Some ''Document not found.''"
| "error_message DocumentNotFoundPlain = Some ''Document not found''"
| "error_message DocumentAlreadySaved = Some ''Document has already been saved and logged.''"
| "error_message DocumentNotFoundOrNotSaved = Some ''Document not found or was not saved.''"
| "error_message DocumentNotFoundOrNotAuthorized =
     Some ''Document not found or user not authorized''"
| "error_message BlockchainTransactionFailed = Some ''Blockchain transaction failed.''"
| "error_message DetectionServiceFailed = None"
| "error_message ValidationError = None"
| "error_message DuplicateKey = None"

text \<open>
  The two writing functions. Each has a parameter for the user's address and passes
  \<^verbatim>\<open>wallet.address\<close> to the contract instead. Every exception of the \<^verbatim>\<open>try\<close> block, a
  network failure as well as a revert, is rethrown as the same error. The contract's state
  is returned with the result; it is the old state when the call fails.
\<close>

definition logDocumentCreation ::
  "rpc \<Rightarrow> string \<Rightarrow> address \<Rightarrow> AuditTrail \<Rightarrow> (error + string) \<times> AuditTrail" where
  "logDocumentCreation r fh userAddress c =
     (if \<not> tx_mined r then (Inl BlockchainTransactionFailed, c)
      else case logNewDocument (wallet_address r) (mined_at r) fh (wallet_address r) c of
             Inl _ \<Rightarrow> (Inl BlockchainTransactionFailed, c)
           | Inr c' \<Rightarrow> (Inr (tx_hash r), c'))"

definition logDocumentAccess ::
  "rpc \<Rightarrow> string \<Rightarrow> address \<Rightarrow> AuditTrail \<Rightarrow> (error + string) \<times> AuditTrail" where
  "logDocumentAccess r fh accessorAddress c =
     (if \<not> tx_mined r then (Inl BlockchainTransactionFailed, c)
      else case logAccess (wallet_address r) (mined_at r) fh (wallet_address r) c of
             Inl _ \<Rightarrow> (Inl BlockchainTransactionFailed, c)
           | Inr c' \<Rightarrow> (Inr (tx_hash r), c'))"

text \<open>
  The two reading functions catch every exception: the integrity check answers
  \<^verbatim>\<open>false\<close>, the history is the empty array. So their result types have no error.
\<close>

definition verifyDocumentIntegrity :: "rpc \<Rightarrow> string \<Rightarrow> AuditTrail \<Rightarrow> bool" where
  "verifyDocumentIntegrity r fh c =
     (if \<not> call_answered r then False
      else let documentRecord = getDocumentRecord fh c;
               onChainHash = fileHash documentRecord
           in onChainHash = fh)"

text \<open>
  An entry of the history handed to the client. The source renders the time as an ISO
  string; the entry here keeps the number of milliseconds given to \<^verbatim>\<open>new Date\<close>.
  \<^verbatim>\<open>toISOString\<close> throws a \<^verbatim>\<open>RangeError\<close> beyond 8.64e15 milliseconds, inside the \<^verbatim>\<open>try\<close>
  block, so one such timestamp empties the whole result.
\<close>

record access_entry =
  entry_accessor :: address
  entry_timestamp :: nat

definition friendly :: "AccessLog \<Rightarrow> access_entry" where
  "friendly log = \<lparr>entry_accessor = accessor log,
                   entry_timestamp = unat (access_timestamp log) * 1000\<rparr>"

definition getDocumentAccessHistory :: "rpc \<Rightarrow> string \<Rightarrow> AuditTrail \<Rightarrow> access_entry list" where
  "getDocumentAccessHistory r fh c =
     (if \<not> call_answered r then []
      else let history = getAccessHistory fh c
           in if list_all (\<lambda>log. unat (access_timestamp log) * 1000 \<le> 8640000000000000) history
              then map friendly history else [])"

section \<open>The document collection\<close>

text \<open>
  A document of the Mongoose model, with the fields the handlers read or write. Times
  are milliseconds since the epoch. \<^verbatim>\<open>expireAt\<close> and \<^verbatim>\<open>blockchainTransactionId\<close> may be
  absent. The collection maps \<^verbatim>\<open>_id\<close> to document.
\<close>

type_synonym byte = "8 word"
type_synonym object_id = nat

record document =
  filename :: string
  originalFile :: "byte list"
  originalFileHash :: string
  user :: object_id
  detectedPii :: "string list"
  isSaved :: bool
  blockchainTransactionId :: "string option"
  expireAt :: "int option"

type_synonym collection = "object_id \<rightharpoonup> document"

text \<open>\<^verbatim>\<open>Document.findOne({ _id, user })\<close>\<close>

definition findOne :: "collection \<Rightarrow> object_id \<Rightarrow> object_id \<Rightarrow> document option" where
  "findOne coll i uid =
     (case coll i of
        None \<Rightarrow> None
      | Some d \<Rightarrow> if user d = uid then Some d else None)"

text \<open>
  The TTL index \<^verbatim>\<open>{ expireAt: 1 }, { expireAfterSeconds: 0 }\<close>: the database deletes a
  document when its \<^verbatim>\<open>expireAt\<close> time is reached. A document without the field never
  expires. The index looks at no other field.
\<close>

definition expired :: "int \<Rightarrow> document \<Rightarrow> bool" where
  "expired now d = (case expireAt d of None \<Rightarrow> False | Some t \<Rightarrow> t \<le> now)"

definition expireSweep :: "int \<Rightarrow> collection \<Rightarrow> collection" where
  "expireSweep now coll =
     (\<lambda>i. case coll i of
            None \<Rightarrow> None
          | Some d \<Rightarrow> if expired now d then None else Some d)"

section \<open>The request handlers\<close>

text \<open>
  The state is the collection and the contract. \<^verbatim>\<open>req.user\<close> carries the user's id and
  address. A handler returns what it sends or throws, and the state it leaves. A handler
  runs as one step, and the database is taken to be available. SHA-256 is a parameter
  \<open>H\<close> of the handlers that hash.

  The document a handler gets from \<^verbatim>\<open>findOne\<close> is built from the stored one, and a path
  the stored one lacks is given its schema default: for \<^verbatim>\<open>expireAt\<close>, the time of loading
  plus five minutes. \<^verbatim>\<open>document.save()\<close> writes the paths the handler assigned, removes a
  path assigned \<^verbatim>\<open>undefined\<close>, and also writes the defaults given at loading. Of the
  handlers that load a document, \<^verbatim>\<open>detectPii\<close> and \<^verbatim>\<open>saveAndLogDocument\<close> save it. The
  second assigns \<^verbatim>\<open>undefined\<close> to \<^verbatim>\<open>expireAt\<close> itself, so what it stores does not depend
  on the default; the first does not touch the path, so the default is stored.
\<close>

record system =
  docs :: collection
  chain :: AuditTrail

record req_user =
  user_id :: object_id
  user_address :: address

record upload_response =
  up_id :: object_id
  up_filename :: string
  up_createdAt :: int

record save_response =
  save_message :: string
  transactionId :: string

record verify_response =
  integrity :: bool
  message :: string
  onChainHash :: string
  currentHash :: string

record logs_response =
  logs_message :: string
  history :: "access_entry list"

text \<open>
  \<^verbatim>\<open>Document.create\<close> validates before it inserts: \<^verbatim>\<open>filename\<close>, \<^verbatim>\<open>originalFile\<close> and
  \<^verbatim>\<open>originalFileHash\<close> are required, which an empty string and an empty buffer fail.
\<close>

definition uploadDocument ::
  "(byte list \<Rightarrow> string) \<Rightarrow> object_id \<Rightarrow> int \<Rightarrow> req_user \<Rightarrow> (string \<times> byte list) option
     \<Rightarrow> system \<Rightarrow> (error + upload_response) \<times> system" where
  "uploadDocument H new_id now u file s =
     (case file of
        None \<Rightarrow> (Inl PleaseSelectAFile, s)
      | Some (originalname, buffer) \<Rightarrow>
          if originalname = [] \<or> buffer = [] \<or> H buffer = [] then (Inl ValidationError, s)
          else if new_id \<in> dom (docs s) then (Inl DuplicateKey, s)
          else
            let document =
                  \<lparr>filename = originalname,
                   originalFile = buffer,
                   originalFileHash = H buffer,
                   user = user_id u,
                   detectedPii = [],
                   isSaved = False,
                   blockchainTransactionId = None,
                   expireAt = Some (now + 5 * 60 * 1000)\<rparr>
            in (Inr \<lparr>up_id = new_id, up_filename = originalname, up_createdAt = now\<rparr>,
                s\<lparr>docs := (docs s)(new_id \<mapsto> document)\<rparr>))"

definition deleteDocument ::
  "object_id \<Rightarrow> req_user \<Rightarrow> system \<Rightarrow> (error + string) \<times> system" where
  "deleteDocument i u s =
     (case findOne (docs s) i (user_id u) of
        Some document \<Rightarrow>
          (Inr ''Document removed successfully'', s\<lparr>docs := (docs s)(i := None)\<rparr>)
      | None \<Rightarrow> (Inl DocumentNotFoundOrNotAuthorized, s))"

text \<open>The schema defaults given to a loaded document, at the time \<open>now\<close> of loading.\<close>

definition applyDefaults :: "int \<Rightarrow> document \<Rightarrow> document" where
  "applyDefaults now d =
     (case expireAt d of
        None \<Rightarrow> d\<lparr>expireAt := Some (now + 5 * 60 * 1000)\<rparr>
      | Some _ \<Rightarrow> d)"

text \<open>
  The answer of the detection service is an input; \<open>None\<close> is a failed request, which
  throws before the document is saved.
\<close>

definition detectPii ::
  "int \<Rightarrow> object_id \<Rightarrow> req_user \<Rightarrow> string list option \<Rightarrow> system
     \<Rightarrow> (error + string list) \<times> system" where
  "detectPii now i u answer s =
     (case findOne (docs s) i (user_id u) of
        None \<Rightarrow> (Inl DocumentNotFoundPlain, s)
      | Some stored \<Rightarrow>
          let document = applyDefaults now stored
          in (case answer of
                None \<Rightarrow> (Inl DetectionServiceFailed, s)
              | Some entities \<Rightarrow>
                  (Inr entities,
                   s\<lparr>docs := (docs s)(i \<mapsto> document\<lparr>detectedPii := entities\<rparr>)\<rparr>)))"

definition saveAndLogDocument ::
  "rpc \<Rightarrow> object_id \<Rightarrow> req_user \<Rightarrow> system \<Rightarrow> (error + save_response) \<times> system" where
  "saveAndLogDocument r i u s =
     (case findOne (docs s) i (user_id u) of
        None \<Rightarrow> (Inl DocumentNotFound, s)
      | Some document \<Rightarrow>
          if isSaved document then (Inl DocumentAlreadySaved, s)
          else
            (case logDocumentCreation r (originalFileHash document) (user_address u) (chain s) of
               (Inl e, c) \<Rightarrow> (Inl e, s\<lparr>chain := c\<rparr>)
             | (Inr txId, c) \<Rightarrow>
                 (Inr \<lparr>save_message =
                         ''Original document hash logged on blockchain successfully.'',
                       transactionId = txId\<rparr>,
                  s\<lparr>docs := (docs s)
                       (i \<mapsto> document\<lparr>isSaved := True,
                                      blockchainTransactionId := Some txId,
                                      expireAt := None\<rparr>),
                    chain := c\<rparr>)))"

definition verifyDocument ::
  "(byte list \<Rightarrow> string) \<Rightarrow> rpc \<Rightarrow> object_id \<Rightarrow> req_user \<Rightarrow> system
     \<Rightarrow> error + verify_response" where
  "verifyDocument H r i u s =
     (case findOne (docs s) i (user_id u) of
        None \<Rightarrow> Inl DocumentNotFoundOrNotSaved
      | Some document \<Rightarrow>
          if \<not> isSaved document then Inl DocumentNotFoundOrNotSaved
          else
            let current = H (originalFile document)
            in if current \<noteq> originalFileHash document
               then Inr \<lparr>integrity = False,
                         message = ''Verification Failed: The stored file does not match its original hash.'',
                         onChainHash = ''N/A'',
                         currentHash = current\<rparr>
               else
                 let isValidOnChain =
                       verifyDocumentIntegrity r (originalFileHash document) (chain s)
                 in Inr \<lparr>integrity = isValidOnChain,
                         message =
                           (if isValidOnChain
                            then ''Document integrity verified successfully against the blockchain.''
                            else ''Verification Failed: The hash on the blockchain does not match.''),
                         onChainHash = originalFileHash document,
                         currentHash = current\<rparr>)"

definition getAccessLogs ::
  "rpc \<Rightarrow> object_id \<Rightarrow> req_user \<Rightarrow> system \<Rightarrow> (error + logs_response) \<times> system" where
  "getAccessLogs r i u s =
     (case findOne (docs s) i (user_id u) of
        None \<Rightarrow> (Inl DocumentNotFoundOrNotSaved, s)
      | Some document \<Rightarrow>
          if \<not> isSaved document then (Inl DocumentNotFoundOrNotSaved, s)
          else
            (case logDocumentAccess r (originalFileHash document) (user_address u) (chain s) of
               (Inl e, c) \<Rightarrow> (Inl e, s\<lparr>chain := c\<rparr>)
             | (Inr txId, c) \<Rightarrow>
                 (Inr \<lparr>logs_message = ''Access logged with tx: '' @ txId,
                       history = getDocumentAccessHistory r (originalFileHash document) c\<rparr>,
                  s\<lparr>chain := c\<rparr>)))"

subsection \<open>Runs of the system\<close>

text \<open>
  What can happen to the state: a request to one of the handlers that write, a request
  to one that only reads, or a pass of the database's TTL monitor at some time. A run
  starts with an empty collection and a freshly deployed contract.
\<close>

datatype request =
  Upload object_id int req_user "(string \<times> byte list) option"
| DetectPii int object_id req_user "string list option"
| SaveAndLog rpc object_id req_user
| Verify rpc object_id req_user
| AccessLogs rpc object_id req_user
| Delete object_id req_user
| TtlSweep int

fun handle :: "(byte list \<Rightarrow> string) \<Rightarrow> request \<Rightarrow> system \<Rightarrow> system" where
  "handle H (Upload new_id now u file) s = snd (uploadDocument H new_id now u file s)"
| "handle H (DetectPii now i u answer) s = snd (detectPii now i u answer s)"
| "handle H (SaveAndLog r i u) s = snd (saveAndLogDocument r i u s)"
| "handle H (Verify r i u) s = s"
| "handle H (AccessLogs r i u) s = snd (getAccessLogs r i u s)"
| "handle H (Delete i u) s = snd (deleteDocument i u s)"
| "handle H (TtlSweep now) s = s\<lparr>docs := expireSweep now (docs s)\<rparr>"

fun run :: "(byte list \<Rightarrow> string) \<Rightarrow> request list \<Rightarrow> system \<Rightarrow> system" where
  "run H [] s = s"
| "run H (req # reqs) s = run H reqs (handle H req s)"

definition initial :: "address \<Rightarrow> system" where
  "initial deployer = \<lparr>docs = Map.empty, chain = constructor deployer\<rparr>"

text \<open>Document \<open>i\<close> is stored after every request of a sequence.\<close>

fun survives :: "(byte list \<Rightarrow> string) \<Rightarrow> object_id \<Rightarrow> request list \<Rightarrow> system \<Rightarrow> bool" where
  "survives H i [] s = True"
| "survives H i (req # reqs) s =
     (docs (handle H req s) i \<noteq> None \<and> survives H i reqs (handle H req s))"

subsection \<open>Predicates on states\<close>

text \<open>Every document that is not saved has its timer.\<close>

definition unsaved_timed :: "collection \<Rightarrow> bool" where
  "unsaved_timed coll = (\<forall>i d. coll i = Some d \<longrightarrow> \<not> isSaved d \<longrightarrow> expireAt d \<noteq> None)"

text \<open>
  Document \<open>i\<close> of user \<open>uid\<close> is stored as saved, with transaction \<open>tx\<close> and hash
  \<open>h\<close>.
\<close>

definition committed_as :: "object_id \<Rightarrow> object_id \<Rightarrow> string \<Rightarrow> string \<Rightarrow> system \<Rightarrow> bool" where
  "committed_as i uid tx h s =
     (case docs s i of
        None \<Rightarrow> False
      | Some d \<Rightarrow> user d = uid \<and> isSaved d
                  \<and> blockchainTransactionId d = Some tx \<and> originalFileHash d = h)"

subsection \<open>Example data\<close>

text \<open>A stand-in for the digest in examples: it only records the length of the input.\<close>

definition length_digest :: "byte list \<Rightarrow> string" where
  "length_digest bs = replicate (length bs) (CHR ''a'')"

definition alice :: req_user where
  "alice = \<lparr>user_id = 1, user_address = 21\<rparr>"

definition bob :: req_user where
  "bob = \<lparr>user_id = 2, user_address = 22\<rparr>"

text \<open>A provider that works, with the wallet of account 7.\<close>

definition rpc_up :: rpc where
  "rpc_up = \<lparr>wallet_address = 7, tx_mined = True, call_answered = True,
             tx_hash = ''0xt1'', mined_at = 1700000000\<rparr>"

text \<open>A provider that cannot be reached.\<close>

definition rpc_down :: rpc where
  "rpc_down = \<lparr>wallet_address = 7, tx_mined = False, call_answered = False,
               tx_hash = ''0xt2'', mined_at = 1700000100\<rparr>"

section \<open>Properties of the contract\<close>

lemma apply_tx_owner: "owner (apply_tx t c) = owner c"
  by (cases "tx_call t")
     (simp_all add: apply_tx_def logNewDocument_def logAccess_def)

lemma apply_tx_accessHistory:
  "accessHistory (apply_tx t c) fh =
     accessHistory c fh @ accesses_logged fh [t] c"
  by (cases "tx_call t")
     (simp_all add: apply_tx_def logNewDocument_def logAccess_def)

lemma apply_txs_accessHistory:
  "accessHistory (apply_txs ts c) fh = accessHistory c fh @ accesses_logged fh ts c"
proof (induction ts arbitrary: c)
  case Nil
  show ?case by simp
next
  case (Cons t ts)
  have "accessHistory (apply_txs (t # ts) c) fh =
          accessHistory (apply_tx t c) fh @ accesses_logged fh ts (apply_tx t c)"
    using Cons.IH [of "apply_tx t c"] by simp
  also have "\<dots> = accessHistory c fh @ accesses_logged fh [t] c
                    @ accesses_logged fh ts (apply_tx t c)"
    by (simp add: apply_tx_accessHistory)
  also have "accesses_logged fh [t] c @ accesses_logged fh ts (apply_tx t c)
               = accesses_logged fh (t # ts) c"
    by simp
  finally show ?case .
qed

lemma length_accesses_logged:
  "length (accesses_logged fh ts c) = successful_accesses fh ts c"
  by (induction ts arbitrary: c)
     (auto split: contract_call.splits sum.splits)

lemma apply_tx_recorded:
  "log_timestamp (documentRecords c fh) \<noteq> 0 \<Longrightarrow>
     documentRecords (apply_tx t c) fh = documentRecords c fh"
  by (cases "tx_call t")
     (auto simp: apply_tx_def logNewDocument_def logAccess_def)

lemma apply_txs_recorded:
  "log_timestamp (documentRecords c fh) \<noteq> 0 \<Longrightarrow>
     documentRecords (apply_txs ts c) fh = documentRecords c fh"
proof (induction ts arbitrary: c)
  case Nil
  show ?case by simp
next
  case (Cons t ts)
  have same: "documentRecords (apply_tx t c) fh = documentRecords c fh"
    using Cons.prems by (rule apply_tx_recorded)
  then have "log_timestamp (documentRecords (apply_tx t c) fh) \<noteq> 0"
    using Cons.prems by simp
  then have "documentRecords (apply_txs ts (apply_tx t c)) fh
               = documentRecords (apply_tx t c) fh"
    by (rule Cons.IH)
  with same show ?case by simp
qed

lemma logNewDocument_stores:
  "logNewDocument s ts fh u c = Inr c1 \<Longrightarrow>
     documentRecords c1 fh = \<lparr>fileHash = fh, log_user = u, log_timestamp = ts\<rparr>"
  by (auto simp: logNewDocument_def split: if_splits)

lemma logNewDocument_recorded_reverts:
  "log_timestamp (documentRecords c fh) \<noteq> 0 \<Longrightarrow>
     logNewDocument s ts fh u c =
       Inl (if s \<noteq> owner c then CallerIsNotTheOwner else DocumentHashAlreadyExists)"
  by (simp add: logNewDocument_def)

text \<open>
  C7. Once \<^verbatim>\<open>logNewDocument\<close> has succeeded for a hash (in a block whose timestamp is
  not zero, as every block's is), every later \<^verbatim>\<open>logNewDocument\<close> for that hash reverts,
  whoever sends it, whatever user it names and whatever transactions ran in between; the
  reverted call changes nothing, and the creation record still holds the hash, the user
  and the timestamp of the first call.
\<close>

theorem logNewDocument_second_call_fails:
  assumes first: "logNewDocument s ts fh u c = Inr c1"
    and block: "ts \<noteq> 0"
  shows "(\<exists>e. logNewDocument s' ts' fh u' (apply_txs txs c1) = Inl e)
       \<and> apply_tx \<lparr>tx_sender = s', tx_block_timestamp = ts',
                   tx_call = LogNewDocument fh u'\<rparr> (apply_txs txs c1) = apply_txs txs c1
       \<and> getDocumentRecord fh (apply_txs txs c1)
           = \<lparr>fileHash = fh, log_user = u, log_timestamp = ts\<rparr>"
proof -
  have stored: "documentRecords c1 fh = \<lparr>fileHash = fh, log_user = u, log_timestamp = ts\<rparr>"
    using first by (rule logNewDocument_stores)
  then have "log_timestamp (documentRecords c1 fh) \<noteq> 0"
    using block by simp
  then have kept: "documentRecords (apply_txs txs c1) fh = documentRecords c1 fh"
    by (rule apply_txs_recorded)
  then have rec: "log_timestamp (documentRecords (apply_txs txs c1) fh) \<noteq> 0"
    using stored block by simp
  have fails: "\<exists>e. logNewDocument s' ts' fh u' (apply_txs txs c1) = Inl e"
    using logNewDocument_recorded_reverts [OF rec] by blast
  then have "apply_tx \<lparr>tx_sender = s', tx_block_timestamp = ts',
                        tx_call = LogNewDocument fh u'\<rparr> (apply_txs txs c1) = apply_txs txs c1"
    by (auto simp: apply_tx_def)
  with fails kept stored show ?thesis
    by (simp add: getDocumentRecord_def)
qed

theorem logNewDocument_second_call_fails_witness:
  "logNewDocument 7 1700000000 ''ab12'' 7 (constructor 7)
     = Inr ((constructor 7)
          \<lparr>documentRecords := (documentRecords (constructor 7))
             (''ab12'' := \<lparr>fileHash = ''ab12'', log_user = 7, log_timestamp = 1700000000\<rparr>),
           events := [DocumentCreated ''ab12'' 7 1700000000]\<rparr>)
   \<and> (1700000000 :: uint256) \<noteq> 0
   \<and> logNewDocument 7 1700000060 ''ab12'' 9
        (apply_txs [\<lparr>tx_sender = 7, tx_block_timestamp = 1700000030,
                     tx_call = LogAccess ''ab12'' 7\<rparr>]
          ((constructor 7)
            \<lparr>documentRecords := (documentRecords (constructor 7))
               (''ab12'' := \<lparr>fileHash = ''ab12'', log_user = 7, log_timestamp = 1700000000\<rparr>),
             events := [DocumentCreated ''ab12'' 7 1700000000]\<rparr>))
        = Inl DocumentHashAlreadyExists
   \<and> getDocumentRecord ''ab12''
        (apply_txs [\<lparr>tx_sender = 7, tx_block_timestamp = 1700000030,
                     tx_call = LogAccess ''ab12'' 7\<rparr>]
          ((constructor 7)
            \<lparr>documentRecords := (documentRecords (constructor 7))
               (''ab12'' := \<lparr>fileHash = ''ab12'', log_user = 7, log_timestamp = 1700000000\<rparr>),
             events := [DocumentCreated ''ab12'' 7 1700000000]\<rparr>))
        = \<lparr>fileHash = ''ab12'', log_user = 7, log_timestamp = 1700000000\<rparr>"
proof -
  let ?c1 = "(constructor 7)
          \<lparr>documentRecords := (documentRecords (constructor 7))
             (''ab12'' := \<lparr>fileHash = ''ab12'', log_user = 7, log_timestamp = 1700000000\<rparr>),
           events := [DocumentCreated ''ab12'' 7 1700000000]\<rparr>"
  have first: "logNewDocument 7 1700000000 ''ab12'' 7 (constructor 7) = Inr ?c1"
    by (simp add: logNewDocument_def constructor_def zeroDocumentLog_def)
  have block: "(1700000000 :: uint256) \<noteq> 0"
    by simp
  have own: "owner (apply_txs [\<lparr>tx_sender = 7, tx_block_timestamp = 1700000030,
                     tx_call = LogAccess ''ab12'' 7\<rparr>] ?c1) = 7"
    by (simp add: apply_tx_owner constructor_def)
  from logNewDocument_second_call_fails [OF first block, of 7 1700000060 9
      "[\<lparr>tx_sender = 7, tx_block_timestamp = 1700000030, tx_call = LogAccess ''ab12'' 7\<rparr>]"]
  show ?thesis
    using first block own by (auto simp: logNewDocument_def split: if_splits)
qed

text \<open>
  C8. For a fixed hash, any sequence of transactions only appends to the access history:
  the history read afterwards is the history read before followed by one record for each
  \<^verbatim>\<open>logAccess\<close> transaction for that hash that did not revert, in call order. So the
  earlier history is a prefix of the later one, and the length grows by exactly the
  number of successful \<^verbatim>\<open>logAccess\<close> calls for that hash.
\<close>

theorem access_history_append_only:
  "getAccessHistory fh (apply_txs ts c)
     = getAccessHistory fh c @ accesses_logged fh ts c
   \<and> prefix (getAccessHistory fh c) (getAccessHistory fh (apply_txs ts c))
   \<and> length (getAccessHistory fh (apply_txs ts c))
       = length (getAccessHistory fh c) + successful_accesses fh ts c"
proof -
  have appended: "getAccessHistory fh (apply_txs ts c)
                    = getAccessHistory fh c @ accesses_logged fh ts c"
    unfolding getAccessHistory_def by (rule apply_txs_accessHistory)
  then have "prefix (getAccessHistory fh c) (getAccessHistory fh (apply_txs ts c))"
    by simp
  moreover have "length (getAccessHistory fh (apply_txs ts c))
                   = length (getAccessHistory fh c) + successful_accesses fh ts c"
    using appended by (simp add: length_accesses_logged)
  ultimately show ?thesis
    using appended by simp
qed

section \<open>Properties of the service and the handlers\<close>

lemmas example_defs =
  initial_def constructor_def zeroDocumentLog_def length_digest_def alice_def bob_def
  rpc_up_def rpc_down_def

lemmas handler_defs =
  uploadDocument_def deleteDocument_def detectPii_def applyDefaults_def
  saveAndLogDocument_def verifyDocument_def getAccessLogs_def findOne_def

lemmas service_defs =
  logDocumentCreation_def logDocumentAccess_def verifyDocumentIntegrity_def
  getDocumentAccessHistory_def getDocumentRecord_def getAccessHistory_def
  logNewDocument_def logAccess_def

lemma findOne_Some: "findOne coll i uid = Some d \<Longrightarrow> coll i = Some d \<and> user d = uid"
  by (auto simp: findOne_def split: option.splits if_splits)

subsection \<open>The deletion timer\<close>

lemma sweep_characterisation:
  "coll i = Some d \<Longrightarrow>
     (expireSweep now coll i = None \<longleftrightarrow> (\<exists>t. expireAt d = Some t \<and> t \<le> now))
     \<and> (expireSweep now coll i \<noteq> None \<longrightarrow> expireSweep now coll i = Some d)"
  by (auto simp: expireSweep_def expired_def split: option.splits)

lemma upload_sets_timer:
  "uploadDocument H new_id now u f s = (Inr resp, s') \<Longrightarrow>
     \<exists>d'. docs s' new_id = Some d' \<and> \<not> isSaved d' \<and> expireAt d' = Some (now + 300000)"
  by (auto simp: uploadDocument_def Let_def split: option.splits if_splits)

text \<open>What holds in every state the system can reach: a document that is not saved has
  its timer.\<close>

lemma handle_unsaved_timed:
  "unsaved_timed (docs s) \<Longrightarrow> unsaved_timed (docs (handle H req s))"
proof (cases req)
  case (Upload new_id now u f)
  assume "unsaved_timed (docs s)"
  then show ?thesis using Upload
    by (auto simp: unsaved_timed_def uploadDocument_def Let_def split: option.splits if_splits)
next
  case (DetectPii now i u answer)
  assume "unsaved_timed (docs s)"
  then show ?thesis using DetectPii
    by (auto simp: unsaved_timed_def detectPii_def applyDefaults_def Let_def
             dest!: findOne_Some split: option.splits if_splits)
next
  case (SaveAndLog r i u)
  assume "unsaved_timed (docs s)"
  then show ?thesis using SaveAndLog
    by (auto simp: unsaved_timed_def saveAndLogDocument_def
             split: option.splits if_splits sum.splits prod.splits)
next
  case (Verify r i u)
  assume "unsaved_timed (docs s)"
  then show ?thesis using Verify by simp
next
  case (AccessLogs r i u)
  assume "unsaved_timed (docs s)"
  then show ?thesis using AccessLogs
    by (auto simp: unsaved_timed_def getAccessLogs_def
             split: option.splits if_splits sum.splits prod.splits)
next
  case (Delete i u)
  assume "unsaved_timed (docs s)"
  then show ?thesis using Delete
    by (auto simp: unsaved_timed_def deleteDocument_def split: option.splits if_splits)
next
  case (TtlSweep now)
  assume "unsaved_timed (docs s)"
  then show ?thesis using TtlSweep
    by (auto simp: unsaved_timed_def expireSweep_def split: option.splits if_splits)
qed

lemma run_unsaved_timed:
  "unsaved_timed (docs s) \<Longrightarrow> unsaved_timed (docs (run H reqs s))"
  by (induction reqs arbitrary: s) (simp_all add: handle_unsaved_timed)

lemma reachable_unsaved_timed:
  "docs (run H reqs (initial deployer)) i = Some d \<Longrightarrow> \<not> isSaved d \<Longrightarrow> expireAt d \<noteq> None"
  using run_unsaved_timed [of "initial deployer" H reqs]
  by (simp add: unsaved_timed_def initial_def)

text \<open>
  C1. The expiry sweep must never delete a document whose \<^verbatim>\<open>isSaved\<close> is true. The code
  breaks this. Alice uploads a file and commits it, which removes \<^verbatim>\<open>expireAt\<close>; she
  then runs the detection on the saved document at time 5000. \<^verbatim>\<open>detectPii\<close> loads the
  document, which gets the default \<^verbatim>\<open>expireAt\<close> of five minutes later, and saves it. The
  saved document now carries a timer, and a pass of the TTL monitor at that time deletes
  it.
\<close>

theorem saved_document_is_swept:
  "docs (run length_digest
          [Upload 1 1000 alice (Some (''a.pdf'', [1, 2])),
           SaveAndLog rpc_up 1 alice,
           DetectPii 5000 1 alice (Some [''EMAIL''])] (initial 7)) 1
     = Some \<lparr>filename = ''a.pdf'', originalFile = [1, 2], originalFileHash = ''aa'', user = 1,
             detectedPii = [''EMAIL''], isSaved = True,
             blockchainTransactionId = Some ''0xt1'', expireAt = Some 305000\<rparr>
   \<and> docs (run length_digest
          [Upload 1 1000 alice (Some (''a.pdf'', [1, 2])),
           SaveAndLog rpc_up 1 alice,
           DetectPii 5000 1 alice (Some [''EMAIL'']),
           TtlSweep 305000] (initial 7)) 1
     = None"
  by (simp add: example_defs handler_defs service_defs expireSweep_def expired_def Let_def)

text \<open>
  C2. A saved document must have no \<^verbatim>\<open>expireAt\<close>, and only a commit may change whether
  the field is there. The code breaks this. After the commit the stored document is
  saved and has no \<^verbatim>\<open>expireAt\<close>; one detection request on it later, it is still saved
  and has \<^verbatim>\<open>expireAt\<close> again, five minutes after the request.
\<close>

theorem saved_document_timer_rearmed:
  "docs (run length_digest
          [Upload 1 1000 alice (Some (''a.pdf'', [1, 2])),
           SaveAndLog rpc_up 1 alice] (initial 7)) 1
     = Some \<lparr>filename = ''a.pdf'', originalFile = [1, 2], originalFileHash = ''aa'', user = 1,
             detectedPii = [], isSaved = True,
             blockchainTransactionId = Some ''0xt1'', expireAt = None\<rparr>
   \<and> docs (handle length_digest (DetectPii 5000 1 alice (Some [''EMAIL'']))
        (run length_digest
          [Upload 1 1000 alice (Some (''a.pdf'', [1, 2])),
           SaveAndLog rpc_up 1 alice] (initial 7))) 1
     = Some \<lparr>filename = ''a.pdf'', originalFile = [1, 2], originalFileHash = ''aa'', user = 1,
             detectedPii = [''EMAIL''], isSaved = True,
             blockchainTransactionId = Some ''0xt1'', expireAt = Some 305000\<rparr>"
  by (simp add: example_defs handler_defs service_defs Let_def)

subsection \<open>Committing a document\<close>

lemma save_unfold:
  assumes "findOne (docs s) i (user_id u) = Some d" and "\<not> isSaved d"
  shows "saveAndLogDocument r i u s =
     (case logDocumentCreation r (originalFileHash d) (user_address u) (chain s) of
        (Inl e, c) \<Rightarrow> (Inl e, s\<lparr>chain := c\<rparr>)
      | (Inr txId, c) \<Rightarrow>
          (Inr \<lparr>save_message = ''Original document hash logged on blockchain successfully.'',
                transactionId = txId\<rparr>,
           s\<lparr>docs := (docs s)
                (i \<mapsto> d\<lparr>isSaved := True,
                        blockchainTransactionId := Some txId,
                        expireAt := None\<rparr>),
             chain := c\<rparr>))"
  using assms by (simp add: saveAndLogDocument_def)

lemma logDocumentCreation_fails:
  "\<not> tx_mined r
   \<or> (\<exists>e. logNewDocument (wallet_address r) (mined_at r) fh (wallet_address r) c = Inl e)
   \<Longrightarrow> logDocumentCreation r fh a c = (Inl BlockchainTransactionFailed, c)"
  by (auto simp: logDocumentCreation_def)

lemma logDocumentCreation_succeeds:
  "tx_mined r \<Longrightarrow>
   logNewDocument (wallet_address r) (mined_at r) fh (wallet_address r) c = Inr c' \<Longrightarrow>
   logDocumentCreation r fh a c = (Inr (tx_hash r), c')"
  by (simp add: logDocumentCreation_def)

lemma save_fails:
  assumes "findOne (docs s) i (user_id u) = Some d" and "\<not> isSaved d"
    and "\<not> tx_mined r
         \<or> (\<exists>e. logNewDocument (wallet_address r) (mined_at r) (originalFileHash d)
                   (wallet_address r) (chain s) = Inl e)"
  shows "saveAndLogDocument r i u s = (Inl BlockchainTransactionFailed, s)"
  by (simp add: save_unfold [OF assms(1,2)] logDocumentCreation_fails [OF assms(3)])

lemma save_succeeds:
  assumes "findOne (docs s) i (user_id u) = Some d" and "\<not> isSaved d"
    and "tx_mined r"
    and "logNewDocument (wallet_address r) (mined_at r) (originalFileHash d)
           (wallet_address r) (chain s) = Inr c'"
  shows "saveAndLogDocument r i u s
           = (Inr \<lparr>save_message = ''Original document hash logged on blockchain successfully.'',
                   transactionId = tx_hash r\<rparr>,
              s\<lparr>docs := (docs s)
                   (i \<mapsto> d\<lparr>isSaved := True,
                           blockchainTransactionId := Some (tx_hash r),
                           expireAt := None\<rparr>),
                chain := c'\<rparr>)"
  by (simp add: save_unfold [OF assms(1,2)] logDocumentCreation_succeeds [OF assms(3,4)])

text \<open>
  C3. A commit call on an existing document that is not yet saved. If the ledger write
  fails, because the transaction does not get through or because the contract reverts,
  the call throws and the state is exactly the state before: the document is untouched.
  If the write is mined, the call answers with the transaction hash, the contract holds
  the creation record, and the document is saved, carries the transaction hash and has
  lost its timer. The document changes in no other case.
\<close>

theorem saveAndLogDocument_ledger_failure:
  assumes found: "findOne (docs s) i (user_id u) = Some d"
    and fresh: "\<not> isSaved d"
  shows "(\<not> tx_mined r
          \<or> (\<exists>e. logNewDocument (wallet_address r) (mined_at r) (originalFileHash d)
                    (wallet_address r) (chain s) = Inl e)
         \<longrightarrow> saveAndLogDocument r i u s = (Inl BlockchainTransactionFailed, s))
       \<and> (\<forall>c'. tx_mined r
             \<and> logNewDocument (wallet_address r) (mined_at r) (originalFileHash d)
                  (wallet_address r) (chain s) = Inr c'
         \<longrightarrow> saveAndLogDocument r i u s
               = (Inr \<lparr>save_message =
                         ''Original document hash logged on blockchain successfully.'',
                       transactionId = tx_hash r\<rparr>,
                  s\<lparr>docs := (docs s)
                       (i \<mapsto> d\<lparr>isSaved := True,
                               blockchainTransactionId := Some (tx_hash r),
                               expireAt := None\<rparr>),
                    chain := c'\<rparr>)
             \<and> getDocumentRecord (originalFileHash d) c'
                 = \<lparr>fileHash = originalFileHash d, log_user = wallet_address r,
                    log_timestamp = mined_at r\<rparr>)
       \<and> (docs (snd (saveAndLogDocument r i u s)) i \<noteq> Some d
         \<longrightarrow> tx_mined r
             \<and> (\<exists>c'. logNewDocument (wallet_address r) (mined_at r) (originalFileHash d)
                    (wallet_address r) (chain s) = Inr c'))"
proof (intro conjI allI impI)
  assume "\<not> tx_mined r
          \<or> (\<exists>e. logNewDocument (wallet_address r) (mined_at r) (originalFileHash d)
                    (wallet_address r) (chain s) = Inl e)"
  then show "saveAndLogDocument r i u s = (Inl BlockchainTransactionFailed, s)"
    by (rule save_fails [OF found fresh])
next
  fix c'
  assume ok: "tx_mined r
             \<and> logNewDocument (wallet_address r) (mined_at r) (originalFileHash d)
                  (wallet_address r) (chain s) = Inr c'"
  then show "saveAndLogDocument r i u s
               = (Inr \<lparr>save_message =
                         ''Original document hash logged on blockchain successfully.'',
                       transactionId = tx_hash r\<rparr>,
                  s\<lparr>docs := (docs s)
                       (i \<mapsto> d\<lparr>isSaved := True,
                               blockchainTransactionId := Some (tx_hash r),
                               expireAt := None\<rparr>),
                    chain := c'\<rparr>)"
    using save_succeeds [OF found fresh] by blast
  from ok have "logNewDocument (wallet_address r) (mined_at r) (originalFileHash d)
                  (wallet_address r) (chain s) = Inr c'"
    by (rule conjunct2)
  then have "documentRecords c' (originalFileHash d)
                 = \<lparr>fileHash = originalFileHash d, log_user = wallet_address r,
                    log_timestamp = mined_at r\<rparr>"
    by (rule logNewDocument_stores)
  then show "getDocumentRecord (originalFileHash d) c'
                 = \<lparr>fileHash = originalFileHash d, log_user = wallet_address r,
                    log_timestamp = mined_at r\<rparr>"
    by (simp add: getDocumentRecord_def)
next
  assume changed: "docs (snd (saveAndLogDocument r i u s)) i \<noteq> Some d"
  have here: "docs s i = Some d"
    using found by (rule findOne_Some [THEN conjunct1])
  show "tx_mined r"
  proof (rule ccontr)
    assume "\<not> tx_mined r"
    then have "saveAndLogDocument r i u s = (Inl BlockchainTransactionFailed, s)"
      using save_fails [OF found fresh] by blast
    with changed here show False by simp
  qed
  show "\<exists>c'. logNewDocument (wallet_address r) (mined_at r) (originalFileHash d)
                    (wallet_address r) (chain s) = Inr c'"
  proof (cases "logNewDocument (wallet_address r) (mined_at r) (originalFileHash d)
                    (wallet_address r) (chain s)")
    case (Inl e)
    then have "saveAndLogDocument r i u s = (Inl BlockchainTransactionFailed, s)"
      using save_fails [OF found fresh] by blast
    with changed here show ?thesis by simp
  next
    case (Inr c')
    then show ?thesis by blast
  qed
qed

theorem saveAndLogDocument_ledger_failure_witness:
  "saveAndLogDocument rpc_down 1 alice
     (run length_digest [Upload 1 1000 alice (Some (''a.pdf'', [1, 2]))] (initial 7))
   = (Inl BlockchainTransactionFailed,
      run length_digest [Upload 1 1000 alice (Some (''a.pdf'', [1, 2]))] (initial 7))
   \<and> docs (snd (saveAndLogDocument rpc_up 1 alice
       (run length_digest [Upload 1 1000 alice (Some (''a.pdf'', [1, 2]))] (initial 7)))) 1
     = Some \<lparr>filename = ''a.pdf'', originalFile = [1, 2], originalFileHash = ''aa'', user = 1,
             detectedPii = [], isSaved = True, blockchainTransactionId = Some ''0xt1'',
             expireAt = None\<rparr>"
proof -
  define s where
    "s = run length_digest [Upload 1 1000 alice (Some (''a.pdf'', [1, 2]))] (initial 7)"
  define d where
    "d = \<lparr>filename = ''a.pdf'', originalFile = [1, 2], originalFileHash = ''aa'',
          user = 1, detectedPii = [], isSaved = False, blockchainTransactionId = None,
          expireAt = Some 301000\<rparr>"
  define c where
    "c = (constructor 7)
          \<lparr>documentRecords := (documentRecords (constructor 7))
             (''aa'' := \<lparr>fileHash = ''aa'', log_user = 7, log_timestamp = 1700000000\<rparr>),
           events := [DocumentCreated ''aa'' 7 1700000000]\<rparr>"
  have found: "findOne (docs s) 1 (user_id alice) = Some d"
    by (simp add: s_def d_def example_defs handler_defs)
  have fresh: "\<not> isSaved d"
    by (simp add: d_def)
  have down: "\<not> tx_mined rpc_down"
    by (simp add: rpc_down_def)
  have up: "tx_mined rpc_up
      \<and> logNewDocument (wallet_address rpc_up) (mined_at rpc_up) (originalFileHash d)
           (wallet_address rpc_up) (chain s) = Inr c"
    by (simp add: s_def d_def c_def example_defs handler_defs service_defs)
  from saveAndLogDocument_ledger_failure [OF found fresh, of rpc_down] down
  have one: "saveAndLogDocument rpc_down 1 alice s = (Inl BlockchainTransactionFailed, s)"
    by blast
  from saveAndLogDocument_ledger_failure [OF found fresh, of rpc_up] up
  have two: "docs (snd (saveAndLogDocument rpc_up 1 alice s)) 1
      = Some (d\<lparr>isSaved := True, blockchainTransactionId := Some (tx_hash rpc_up),
               expireAt := None\<rparr>)"
    by simp
  show ?thesis
    using one two by (simp add: s_def d_def rpc_up_def)
qed

subsection \<open>Verifying a document\<close>

text \<open>
  C9. For a saved document whose stored bytes no longer hash to the stored hash,
  \<^verbatim>\<open>verifyDocument\<close> answers that the stored file does not match, with \<^verbatim>\<open>N/A\<close> in place
  of the on-chain hash, and the answer is the same for every provider and every state
  of the contract: the ledger is not consulted.
\<close>

theorem verifyDocument_local_tamper:
  assumes "findOne (docs s) i (user_id u) = Some d"
    and "isSaved d"
    and "H (originalFile d) \<noteq> originalFileHash d"
  shows "verifyDocument H r i u s
           = Inr \<lparr>integrity = False,
                  message = ''Verification Failed: The stored file does not match its original hash.'',
                  onChainHash = ''N/A'',
                  currentHash = H (originalFile d)\<rparr>
       \<and> verifyDocument H r' i u (s\<lparr>chain := c'\<rparr>) = verifyDocument H r i u s"
proof -
  have answer: "verifyDocument H p i u t
           = Inr \<lparr>integrity = False,
                  message = ''Verification Failed: The stored file does not match its original hash.'',
                  onChainHash = ''N/A'',
                  currentHash = H (originalFile d)\<rparr>"
    if "docs t = docs s" for p t
    using assms that by (simp add: verifyDocument_def Let_def)
  have "verifyDocument H r i u s
           = Inr \<lparr>integrity = False,
                  message = ''Verification Failed: The stored file does not match its original hash.'',
                  onChainHash = ''N/A'',
                  currentHash = H (originalFile d)\<rparr>"
    by (rule answer) simp
  moreover have "verifyDocument H r' i u (s\<lparr>chain := c'\<rparr>)
           = Inr \<lparr>integrity = False,
                  message = ''Verification Failed: The stored file does not match its original hash.'',
                  onChainHash = ''N/A'',
                  currentHash = H (originalFile d)\<rparr>"
    by (rule answer) simp
  ultimately show ?thesis
    by simp
qed

theorem verifyDocument_local_tamper_witness:
  "verifyDocument length_digest rpc_up 1 alice
     \<lparr>docs = [1 \<mapsto> \<lparr>filename = ''a.pdf'', originalFile = [1, 2, 3], originalFileHash = ''aa'',
                     user = 1, detectedPii = [], isSaved = True,
                     blockchainTransactionId = Some ''0xt1'', expireAt = None\<rparr>],
      chain = constructor 7\<rparr>
   = Inr \<lparr>integrity = False,
          message = ''Verification Failed: The stored file does not match its original hash.'',
          onChainHash = ''N/A'',
          currentHash = ''aaa''\<rparr>
   \<and> verifyDocument length_digest rpc_down 1 alice
     \<lparr>docs = [1 \<mapsto> \<lparr>filename = ''a.pdf'', originalFile = [1, 2, 3], originalFileHash = ''aa'',
                     user = 1, detectedPii = [], isSaved = True,
                     blockchainTransactionId = Some ''0xt1'', expireAt = None\<rparr>],
      chain = constructor 9\<rparr>
   = Inr \<lparr>integrity = False,
          message = ''Verification Failed: The stored file does not match its original hash.'',
          onChainHash = ''N/A'',
          currentHash = ''aaa''\<rparr>"
proof -
  define d where
    "d = \<lparr>filename = ''a.pdf'', originalFile = [1, 2, 3], originalFileHash = ''aa'',
          user = 1, detectedPii = [], isSaved = True,
          blockchainTransactionId = Some ''0xt1'', expireAt = None\<rparr>"
  define s where "s = \<lparr>docs = [1 \<mapsto> d], chain = constructor 7\<rparr>"
  have found: "findOne (docs s) 1 (user_id alice) = Some d"
    by (simp add: s_def d_def findOne_def alice_def)
  have saved: "isSaved d"
    by (simp add: d_def)
  have tampered: "length_digest (originalFile d) \<noteq> originalFileHash d"
    by (simp add: d_def length_digest_def)
  have digest: "length_digest (originalFile d) = ''aaa''"
    by (simp add: d_def length_digest_def)
  have other: "s\<lparr>chain := constructor 9\<rparr> = \<lparr>docs = [1 \<mapsto> d], chain = constructor 9\<rparr>"
    by (simp add: s_def)
  from verifyDocument_local_tamper
         [where H = length_digest and r = rpc_up and r' = rpc_down and c' = "constructor 9",
          OF found saved tampered]
  show ?thesis
    unfolding digest other by (simp add: s_def d_def)
qed

text \<open>
  In a contract that has only seen blocks with a timestamp other than zero, a hash that
  fails the contract's own test for existence reads back as the zero record.
\<close>

lemma apply_tx_unrecorded:
  assumes "\<forall>fh. log_timestamp (documentRecords c fh) = 0
                \<longrightarrow> documentRecords c fh = zeroDocumentLog"
    and "tx_block_timestamp t \<noteq> 0"
  shows "\<forall>fh. log_timestamp (documentRecords (apply_tx t c) fh) = 0
                \<longrightarrow> documentRecords (apply_tx t c) fh = zeroDocumentLog"
  using assms
  by (cases "tx_call t") (auto simp: apply_tx_def logNewDocument_def logAccess_def)

lemma apply_txs_unrecorded:
  "\<forall>fh. log_timestamp (documentRecords c fh) = 0
          \<longrightarrow> documentRecords c fh = zeroDocumentLog \<Longrightarrow>
   list_all (\<lambda>t. tx_block_timestamp t \<noteq> 0) ts \<Longrightarrow>
   \<forall>fh. log_timestamp (documentRecords (apply_txs ts c) fh) = 0
          \<longrightarrow> documentRecords (apply_txs ts c) fh = zeroDocumentLog"
  by (induction ts arbitrary: c) (simp_all add: apply_tx_unrecorded)

lemma unrecorded_reads_zero:
  "list_all (\<lambda>t. tx_block_timestamp t \<noteq> 0) ts \<Longrightarrow>
   log_timestamp (getDocumentRecord fh (apply_txs ts (constructor a))) = 0 \<Longrightarrow>
   getDocumentRecord fh (apply_txs ts (constructor a)) = zeroDocumentLog"
  using apply_txs_unrecorded [of "constructor a" ts]
  by (simp add: getDocumentRecord_def constructor_def zeroDocumentLog_def)

text \<open>
  C10. \<^verbatim>\<open>verifyDocumentIntegrity\<close> has no failing outcome: its result is a truth value on
  every path. For a hash, which is never the empty string, it answers \<^verbatim>\<open>false\<close> when the
  read is not answered, when the contract holds no creation record for the hash, and
  when the recorded hash differs: one and the same answer in the three cases.
\<close>

theorem verifyDocumentIntegrity_never_raises:
  assumes "fh \<noteq> []"
    and "\<not> call_answered r
         \<or> getDocumentRecord fh c = zeroDocumentLog
         \<or> fileHash (getDocumentRecord fh c) \<noteq> fh"
  shows "verifyDocumentIntegrity r fh c = False"
proof (cases "call_answered r")
  case False
  then show ?thesis
    by (simp add: verifyDocumentIntegrity_def)
next
  case True
  have "fileHash (getDocumentRecord fh c) \<noteq> fh"
  proof (cases "getDocumentRecord fh c = zeroDocumentLog")
    case True
    then have "fileHash (getDocumentRecord fh c) = []"
      by (simp add: zeroDocumentLog_def)
    with assms(1) show ?thesis
      by simp
  next
    case False
    with \<open>call_answered r\<close> assms(2) show ?thesis
      by simp
  qed
  then show ?thesis
    by (simp add: verifyDocumentIntegrity_def Let_def)
qed

theorem verifyDocumentIntegrity_never_raises_witness:
  "verifyDocumentIntegrity rpc_down ''aa''
     (chain (run length_digest
        [Upload 1 1000 alice (Some (''a.pdf'', [1, 2])), SaveAndLog rpc_up 1 alice]
        (initial 7))) = False
   \<and> verifyDocumentIntegrity rpc_up ''aaa''
     (chain (run length_digest
        [Upload 1 1000 alice (Some (''a.pdf'', [1, 2])), SaveAndLog rpc_up 1 alice]
        (initial 7))) = False"
proof -
  define c where
    "c = chain (run length_digest
        [Upload 1 1000 alice (Some (''a.pdf'', [1, 2])), SaveAndLog rpc_up 1 alice]
        (initial 7))"
  have down: "\<not> call_answered rpc_down
      \<or> getDocumentRecord ''aa'' c = zeroDocumentLog
      \<or> fileHash (getDocumentRecord ''aa'' c) \<noteq> ''aa''"
    by (simp add: rpc_down_def)
  have "getDocumentRecord ''aaa'' c = zeroDocumentLog"
    by (simp add: c_def example_defs handler_defs service_defs)
  then have unrecorded: "\<not> call_answered rpc_up
      \<or> getDocumentRecord ''aaa'' c = zeroDocumentLog
      \<or> fileHash (getDocumentRecord ''aaa'' c) \<noteq> ''aaa''"
    by simp
  have hashes: "''aa'' \<noteq> []" "''aaa'' \<noteq> []"
    by simp_all
  from verifyDocumentIntegrity_never_raises [of "''aa''" rpc_down c] hashes(1) down
  have one: "verifyDocumentIntegrity rpc_down ''aa'' c = False"
    by blast
  from verifyDocumentIntegrity_never_raises [of "''aaa''" rpc_up c] hashes(2) unrecorded
  have two: "verifyDocumentIntegrity rpc_up ''aaa'' c = False"
    by blast
  from one two show ?thesis
    unfolding c_def by (rule conjI)
qed

subsection \<open>Committing twice\<close>

lemma handle_committed:
  assumes "committed_as i uid tx h s" and "docs (handle H req s) i \<noteq> None"
  shows "committed_as i uid tx h (handle H req s)"
proof (cases req)
  case (Upload new_id now u f)
  with assms show ?thesis
    by (auto simp: committed_as_def uploadDocument_def Let_def split: option.splits if_splits)
next
  case (DetectPii now j u answer)
  with assms show ?thesis
    by (auto simp: committed_as_def detectPii_def applyDefaults_def Let_def findOne_def
             split: option.splits if_splits)
next
  case (SaveAndLog r j u)
  with assms show ?thesis
    by (auto simp: committed_as_def saveAndLogDocument_def dest!: findOne_Some
             split: option.splits if_splits sum.splits prod.splits)
next
  case (Verify r j u)
  with assms show ?thesis by simp
next
  case (AccessLogs r j u)
  with assms show ?thesis
    by (auto simp: committed_as_def getAccessLogs_def
             split: option.splits if_splits sum.splits prod.splits)
next
  case (Delete j u)
  with assms show ?thesis
    by (auto simp: committed_as_def deleteDocument_def findOne_def
             split: option.splits if_splits)
next
  case (TtlSweep now)
  with assms show ?thesis
    by (auto simp: committed_as_def expireSweep_def expired_def split: option.splits if_splits)
qed

lemma run_committed:
  "committed_as i uid tx h s \<Longrightarrow> survives H i reqs s \<Longrightarrow>
     committed_as i uid tx h (run H reqs s)"
  by (induction reqs arbitrary: s) (simp_all add: handle_committed)

lemma committed_rejected:
  "committed_as i (user_id u) tx h s \<Longrightarrow>
     saveAndLogDocument r i u s = (Inl DocumentAlreadySaved, s)"
  by (auto simp: committed_as_def saveAndLogDocument_def findOne_def split: option.splits)

lemma committed_record:
  "committed_as i uid tx h s \<Longrightarrow>
     \<exists>d. docs s i = Some d \<and> isSaved d \<and> blockchainTransactionId d = Some tx
         \<and> originalFileHash d = h"
  by (auto simp: committed_as_def split: option.splits)

lemma logNewDocument_succeeds_iff:
  "(\<exists>c'. logNewDocument w t fh a c = Inr c') \<longleftrightarrow>
     w = owner c \<and> log_timestamp (documentRecords c fh) = 0"
  by (simp add: logNewDocument_def)

lemma save_result_cases:
  assumes found: "findOne (docs s) i (user_id u) = Some d" and fresh: "\<not> isSaved d"
  shows "(saveAndLogDocument r i u s = (Inl BlockchainTransactionFailed, s)
          \<and> \<not> (tx_mined r \<and> wallet_address r = owner (chain s)
                \<and> log_timestamp (documentRecords (chain s) (originalFileHash d)) = 0))
       \<or> (\<exists>c'. saveAndLogDocument r i u s
                 = (Inr \<lparr>save_message =
                           ''Original document hash logged on blockchain successfully.'',
                         transactionId = tx_hash r\<rparr>,
                    s\<lparr>docs := (docs s)
                         (i \<mapsto> d\<lparr>isSaved := True,
                                 blockchainTransactionId := Some (tx_hash r),
                                 expireAt := None\<rparr>),
                      chain := c'\<rparr>)
               \<and> tx_mined r \<and> wallet_address r = owner (chain s)
               \<and> log_timestamp (documentRecords (chain s) (originalFileHash d)) = 0)"
proof (cases "tx_mined r \<and> wallet_address r = owner (chain s)
                \<and> log_timestamp (documentRecords (chain s) (originalFileHash d)) = 0")
  case True
  then obtain c' where
    "logNewDocument (wallet_address r) (mined_at r) (originalFileHash d)
       (wallet_address r) (chain s) = Inr c'"
    using logNewDocument_succeeds_iff
            [of "wallet_address r" "mined_at r" "originalFileHash d" "wallet_address r" "chain s"]
    by blast
  with True save_succeeds [OF found fresh, of r c'] show ?thesis
    by blast
next
  case False
  then have "\<not> tx_mined r
         \<or> (\<exists>e. logNewDocument (wallet_address r) (mined_at r) (originalFileHash d)
                   (wallet_address r) (chain s) = Inl e)"
    by (auto simp: logNewDocument_def)
  then have "saveAndLogDocument r i u s = (Inl BlockchainTransactionFailed, s)"
    by (rule save_fails [OF found fresh])
  with False show ?thesis
    by blast
qed

text \<open>
  C4, as the code has it. A commit call on an existing document that is not yet saved
  succeeds exactly when the ledger write is confirmed: the transaction gets through, the
  wallet is the contract's owner and the contract has no record for the document's hash.
  When it succeeds it answers with the transaction hash and the document becomes saved
  with that hash stored. From then on, after any further requests each of which leaves
  the document stored, every commit call for it by its owner throws the already-saved
  error and leaves the whole state, documents and contract, as it was; the stored
  document still has the same transaction hash and the same file hash.
\<close>

theorem saveAndLogDocument_once:
  assumes found: "findOne (docs s) i (user_id u) = Some d"
    and fresh: "\<not> isSaved d"
  shows "((\<exists>resp s1. saveAndLogDocument r i u s = (Inr resp, s1))
            \<longleftrightarrow> tx_mined r \<and> wallet_address r = owner (chain s)
                \<and> log_timestamp (documentRecords (chain s) (originalFileHash d)) = 0)
       \<and> (\<forall>resp s1. saveAndLogDocument r i u s = (Inr resp, s1) \<longrightarrow>
             transactionId resp = tx_hash r
           \<and> docs s1 i = Some (d\<lparr>isSaved := True,
                                 blockchainTransactionId := Some (tx_hash r),
                                 expireAt := None\<rparr>)
           \<and> (\<forall>reqs r' u'.
                 user_id u' = user_id u \<and> survives H i reqs s1 \<longrightarrow>
                   saveAndLogDocument r' i u' (run H reqs s1)
                     = (Inl DocumentAlreadySaved, run H reqs s1)
                 \<and> (\<exists>d2. docs (run H reqs s1) i = Some d2 \<and> isSaved d2
                        \<and> blockchainTransactionId d2 = Some (tx_hash r)
                        \<and> originalFileHash d2 = originalFileHash d)))"
proof (intro conjI allI impI)
  show "(\<exists>resp s1. saveAndLogDocument r i u s = (Inr resp, s1))
            \<longleftrightarrow> tx_mined r \<and> wallet_address r = owner (chain s)
                \<and> log_timestamp (documentRecords (chain s) (originalFileHash d)) = 0"
    using save_result_cases [OF found fresh, of r] by auto
next
  fix resp s1
  assume ok: "saveAndLogDocument r i u s = (Inr resp, s1)"
  with save_result_cases [OF found fresh, of r] obtain c' where
    result: "resp = \<lparr>save_message =
                       ''Original document hash logged on blockchain successfully.'',
                     transactionId = tx_hash r\<rparr>"
      "s1 = s\<lparr>docs := (docs s)
                 (i \<mapsto> d\<lparr>isSaved := True,
                         blockchainTransactionId := Some (tx_hash r),
                         expireAt := None\<rparr>),
              chain := c'\<rparr>"
    by auto
  show "transactionId resp = tx_hash r"
    by (simp add: result)
  show stored: "docs s1 i = Some (d\<lparr>isSaved := True,
                                 blockchainTransactionId := Some (tx_hash r),
                                 expireAt := None\<rparr>)"
    by (simp add: result)
  have owner: "user d = user_id u"
    using found by (rule findOne_Some [THEN conjunct2])
  have committed: "committed_as i (user_id u) (tx_hash r) (originalFileHash d) s1"
    using stored owner by (simp add: committed_as_def)
  fix reqs r' and u' :: req_user
  assume later: "user_id u' = user_id u \<and> survives H i reqs s1"
  then have still: "committed_as i (user_id u') (tx_hash r) (originalFileHash d) (run H reqs s1)"
    using run_committed [OF committed, of H reqs] by simp
  then show "saveAndLogDocument r' i u' (run H reqs s1)
                     = (Inl DocumentAlreadySaved, run H reqs s1)"
    by (rule committed_rejected)
  from still show "\<exists>d2. docs (run H reqs s1) i = Some d2 \<and> isSaved d2
                        \<and> blockchainTransactionId d2 = Some (tx_hash r)
                        \<and> originalFileHash d2 = originalFileHash d"
    by (rule committed_record)
qed

theorem saveAndLogDocument_once_witness:
  "(\<exists>resp s1. saveAndLogDocument rpc_up 1 alice
         (run length_digest [Upload 1 1000 alice (Some (''a.pdf'', [1, 2]))] (initial 7))
       = (Inr resp, s1) \<and> transactionId resp = ''0xt1'')
   \<and> fst (saveAndLogDocument rpc_up 1 alice
         (run length_digest [DetectPii 5000 1 alice (Some [''EMAIL'']), TtlSweep 6000]
           (snd (saveAndLogDocument rpc_up 1 alice
             (run length_digest [Upload 1 1000 alice (Some (''a.pdf'', [1, 2]))] (initial 7))))))
     = Inl DocumentAlreadySaved"
proof -
  define s where
    "s = run length_digest [Upload 1 1000 alice (Some (''a.pdf'', [1, 2]))] (initial 7)"
  define d where
    "d = \<lparr>filename = ''a.pdf'', originalFile = [1, 2], originalFileHash = ''aa'',
          user = 1, detectedPii = [], isSaved = False, blockchainTransactionId = None,
          expireAt = Some 301000\<rparr>"
  define reqs where
    "reqs = [DetectPii 5000 1 alice (Some [''EMAIL'']), TtlSweep 6000]"
  define s1 where "s1 = snd (saveAndLogDocument rpc_up 1 alice s)"
  have found: "findOne (docs s) 1 (user_id alice) = Some d"
    by (simp add: s_def d_def example_defs handler_defs)
  have fresh: "\<not> isSaved d"
    by (simp add: d_def)
  have accepted: "tx_mined rpc_up \<and> wallet_address rpc_up = owner (chain s)
      \<and> log_timestamp (documentRecords (chain s) (originalFileHash d)) = 0"
    by (simp add: s_def d_def example_defs handler_defs)
  have kept: "survives length_digest 1 reqs s1"
    by (simp add: reqs_def s1_def s_def example_defs handler_defs service_defs
                  expireSweep_def expired_def Let_def)
  note once = saveAndLogDocument_once [OF found fresh, where r = rpc_up and H = length_digest]
  from once accepted obtain resp' s1' where
    ok: "saveAndLogDocument rpc_up 1 alice s = (Inr resp', s1')"
    by blast
  then have s1': "s1' = s1"
    by (simp add: s1_def)
  from once ok have "transactionId resp' = tx_hash rpc_up"
    by blast
  then have "transactionId resp' = ''0xt1''"
    by (simp add: rpc_up_def)
  with ok have first: "\<exists>resp s1. saveAndLogDocument rpc_up 1 alice s = (Inr resp, s1)
                         \<and> transactionId resp = ''0xt1''"
    by blast
  from kept have "survives length_digest 1 reqs s1'"
    by (simp add: s1')
  with once ok
  have "saveAndLogDocument rpc_up 1 alice (run length_digest reqs s1')
          = (Inl DocumentAlreadySaved, run length_digest reqs s1')"
    by blast
  then have second: "fst (saveAndLogDocument rpc_up 1 alice (run length_digest reqs s1))
          = Inl DocumentAlreadySaved"
    by (simp add: s1')
  from first second show ?thesis
    unfolding s_def s1_def reqs_def by (rule conjI)
qed

text \<open>
  C4 as stated fails: the first commit call on a document need not succeed. Two users
  upload the same bytes; after the first document is committed, the first commit call on
  the second one is rejected by the contract, which already has that hash, and the
  document stays unsaved.
\<close>

theorem first_commit_can_fail:
  "findOne (docs (run length_digest
        [Upload 1 1000 alice (Some (''a.pdf'', [1, 2])),
         Upload 2 2000 bob (Some (''copy.pdf'', [1, 2])),
         SaveAndLog rpc_up 1 alice] (initial 7))) 2 (user_id bob)
     = Some \<lparr>filename = ''copy.pdf'', originalFile = [1, 2], originalFileHash = ''aa'',
             user = 2, detectedPii = [], isSaved = False, blockchainTransactionId = None,
             expireAt = Some 302000\<rparr>
   \<and> saveAndLogDocument rpc_up 2 bob
       (run length_digest
        [Upload 1 1000 alice (Some (''a.pdf'', [1, 2])),
         Upload 2 2000 bob (Some (''copy.pdf'', [1, 2])),
         SaveAndLog rpc_up 1 alice] (initial 7))
     = (Inl BlockchainTransactionFailed,
        run length_digest
        [Upload 1 1000 alice (Some (''a.pdf'', [1, 2])),
         Upload 2 2000 bob (Some (''copy.pdf'', [1, 2])),
         SaveAndLog rpc_up 1 alice] (initial 7))"
proof -
  define s where
    "s = run length_digest
        [Upload 1 1000 alice (Some (''a.pdf'', [1, 2])),
         Upload 2 2000 bob (Some (''copy.pdf'', [1, 2])),
         SaveAndLog rpc_up 1 alice] (initial 7)"
  define d where
    "d = \<lparr>filename = ''copy.pdf'', originalFile = [1, 2], originalFileHash = ''aa'',
          user = 2, detectedPii = [], isSaved = False, blockchainTransactionId = None,
          expireAt = Some 302000\<rparr>"
  have found: "findOne (docs s) 2 (user_id bob) = Some d"
    by (simp add: s_def d_def example_defs handler_defs service_defs)
  have fresh: "\<not> isSaved d"
    by (simp add: d_def)
  have "logNewDocument (wallet_address rpc_up) (mined_at rpc_up) (originalFileHash d)
          (wallet_address rpc_up) (chain s) = Inl DocumentHashAlreadyExists"
    by (simp add: s_def d_def example_defs handler_defs service_defs)
  then have "\<not> tx_mined rpc_up
         \<or> (\<exists>e. logNewDocument (wallet_address rpc_up) (mined_at rpc_up) (originalFileHash d)
                   (wallet_address rpc_up) (chain s) = Inl e)"
    by blast
  then have "saveAndLogDocument rpc_up 2 bob s = (Inl BlockchainTransactionFailed, s)"
    by (rule save_fails [OF found fresh])
  with found show ?thesis
    unfolding s_def d_def by (rule conjI)
qed

subsection \<open>Logging an access\<close>

text \<open>
  C5. An access-log request by a user on a saved document must append to the ledger
  history of the document's hash a record that names that user as the accessor, and
  the history sent back must show it. The code does not do this. \<^verbatim>\<open>getAccessLogs\<close> hands
  the user's address to \<^verbatim>\<open>logDocumentAccess\<close>, which passes the wallet's address to the
  contract instead. Alice, whose address is 21, asks for the access log of her saved
  document through a service whose wallet is account 7: the record appended and the
  entry sent back both name account 7.
\<close>

theorem access_record_not_the_user:
  "user_address alice = 21
   \<and> fst (getAccessLogs rpc_up 1 alice
        (run length_digest
          [Upload 1 1000 alice (Some (''a.pdf'', [1, 2])), SaveAndLog rpc_up 1 alice]
          (initial 7)))
     = Inr \<lparr>logs_message = ''Access logged with tx: 0xt1'',
            history = [\<lparr>entry_accessor = 7, entry_timestamp = 1700000000000\<rparr>]\<rparr>
   \<and> getAccessHistory ''aa''
        (chain (snd (getAccessLogs rpc_up 1 alice
          (run length_digest
            [Upload 1 1000 alice (Some (''a.pdf'', [1, 2])), SaveAndLog rpc_up 1 alice]
            (initial 7)))))
     = [\<lparr>accessor = 7, access_timestamp = 1700000000\<rparr>]
   \<and> (7 :: address) \<noteq> 21"
  by (simp add: example_defs handler_defs service_defs friendly_def)

subsection \<open>Verifying an intact document\<close>

text \<open>
  C6, as the code has it. For a saved document whose stored bytes still hash to the
  stored hash, \<^verbatim>\<open>verifyDocument\<close> answers; the answer says the integrity holds exactly when
  the read of the contract is answered and the hash in the contract's creation record
  equals the local hash, and otherwise says that the hash on the blockchain does not
  match; the current hash is the local hash; and when the integrity holds, the on-chain
  hash in the answer is the hash recorded in the contract.
\<close>

theorem verifyDocument_intact:
  assumes "findOne (docs s) i (user_id u) = Some d"
    and "isSaved d"
    and "H (originalFile d) = originalFileHash d"
  shows "\<exists>resp. verifyDocument H r i u s = Inr resp
           \<and> (integrity resp \<longleftrightarrow>
                call_answered r
                \<and> fileHash (getDocumentRecord (originalFileHash d) (chain s))
                    = originalFileHash d)
           \<and> message resp =
               (if integrity resp
                then ''Document integrity verified successfully against the blockchain.''
                else ''Verification Failed: The hash on the blockchain does not match.'')
           \<and> currentHash resp = originalFileHash d
           \<and> (integrity resp \<longrightarrow>
                onChainHash resp
                  = fileHash (getDocumentRecord (originalFileHash d) (chain s)))"
proof -
  define valid where
    "valid = verifyDocumentIntegrity r (originalFileHash d) (chain s)"
  have answer: "verifyDocument H r i u s
      = Inr \<lparr>integrity = valid,
             message =
               (if valid
                then ''Document integrity verified successfully against the blockchain.''
                else ''Verification Failed: The hash on the blockchain does not match.''),
             onChainHash = originalFileHash d,
             currentHash = originalFileHash d\<rparr>"
    using assms by (simp add: verifyDocument_def valid_def Let_def)
  have verdict: "valid \<longleftrightarrow>
                call_answered r
                \<and> fileHash (getDocumentRecord (originalFileHash d) (chain s))
                    = originalFileHash d"
    by (simp add: valid_def verifyDocumentIntegrity_def Let_def)
  show ?thesis
    unfolding answer using verdict by simp
qed

theorem verifyDocument_intact_witness:
  "verifyDocument length_digest rpc_up 1 alice
     (run length_digest
        [Upload 1 1000 alice (Some (''a.pdf'', [1, 2])), SaveAndLog rpc_up 1 alice]
        (initial 7))
   = Inr \<lparr>integrity = True,
          message = ''Document integrity verified successfully against the blockchain.'',
          onChainHash = ''aa'',
          currentHash = ''aa''\<rparr>
   \<and> fileHash (getDocumentRecord ''aa''
        (chain (run length_digest
          [Upload 1 1000 alice (Some (''a.pdf'', [1, 2])), SaveAndLog rpc_up 1 alice]
          (initial 7)))) = ''aa''"
proof -
  define s where
    "s = run length_digest
          [Upload 1 1000 alice (Some (''a.pdf'', [1, 2])), SaveAndLog rpc_up 1 alice]
          (initial 7)"
  define d where
    "d = \<lparr>filename = ''a.pdf'', originalFile = [1, 2], originalFileHash = ''aa'', user = 1,
          detectedPii = [], isSaved = True, blockchainTransactionId = Some ''0xt1'',
          expireAt = None\<rparr>"
  have found: "findOne (docs s) 1 (user_id alice) = Some d"
    by (simp add: s_def d_def example_defs handler_defs service_defs)
  have saved: "isSaved d"
    by (simp add: d_def)
  have intact: "length_digest (originalFile d) = originalFileHash d"
    by (simp add: d_def length_digest_def)
  have local: "originalFileHash d = ''aa''"
    by (simp add: d_def)
  have ledger: "fileHash (getDocumentRecord ''aa'' (chain s)) = ''aa''"
    by (simp add: s_def example_defs handler_defs service_defs)
  have answered: "call_answered rpc_up"
    by (simp add: rpc_up_def)
  from verifyDocument_intact [where H = length_digest and r = rpc_up, OF found saved intact]
  obtain resp where
    "verifyDocument length_digest rpc_up 1 alice s = Inr resp"
    "integrity resp"
    "message resp = (if integrity resp
                then ''Document integrity verified successfully against the blockchain.''
                else ''Verification Failed: The hash on the blockchain does not match.'')"
    "currentHash resp = ''aa''"
    "onChainHash resp = ''aa''"
    using local ledger answered by auto
  then have "verifyDocument length_digest rpc_up 1 alice s
   = Inr \<lparr>integrity = True,
          message = ''Document integrity verified successfully against the blockchain.'',
          onChainHash = ''aa'',
          currentHash = ''aa''\<rparr>"
    by (cases resp) simp
  from this ledger show ?thesis
    unfolding s_def by (rule conjI)
qed

text \<open>
  C6 as stated fails twice. With the ledger unreachable, the answer says the hash on the
  blockchain does not match although the contract's record holds exactly the local
  hash. With a contract that has no record for the hash, the recorded hash is the empty
  string, yet the on-chain hash in the answer is the local hash.
\<close>

theorem verify_answer_not_the_ledger:
  "verifyDocument length_digest rpc_down 1 alice
     (run length_digest
        [Upload 1 1000 alice (Some (''a.pdf'', [1, 2])), SaveAndLog rpc_up 1 alice]
        (initial 7))
   = Inr \<lparr>integrity = False,
          message = ''Verification Failed: The hash on the blockchain does not match.'',
          onChainHash = ''aa'',
          currentHash = ''aa''\<rparr>
   \<and> fileHash (getDocumentRecord ''aa''
        (chain (run length_digest
          [Upload 1 1000 alice (Some (''a.pdf'', [1, 2])), SaveAndLog rpc_up 1 alice]
          (initial 7)))) = ''aa''
   \<and> verifyDocument length_digest rpc_up 1 alice
     ((run length_digest
        [Upload 1 1000 alice (Some (''a.pdf'', [1, 2])), SaveAndLog rpc_up 1 alice]
        (initial 7))\<lparr>chain := constructor 7\<rparr>)
   = Inr \<lparr>integrity = False,
          message = ''Verification Failed: The hash on the blockchain does not match.'',
          onChainHash = ''aa'',
          currentHash = ''aa''\<rparr>
   \<and> fileHash (getDocumentRecord ''aa'' (constructor 7)) = []"
  by (simp add: example_defs handler_defs service_defs Let_def)

end
